theory Spec2Isabelle
  imports Main
begin

section \<open>The main instance of the runtime: src/node_main_instance.cc\<close>

text \<open>
  The file defines the class \<open>NodeMainInstance\<close>: two constructors (one adopts an
  isolate supplied by the embedder, one creates and owns its isolate), \<open>Dispose\<close>, the
  destructor, the two overloads of \<open>Run\<close> and \<open>CreateMainEnvironment\<close>.

  Everything the class does, it does by calling collaborators (the engine, the platform,
  the environment API, the event loop). The embedding therefore has three parts:
  \<^item> the collaborators, as a record of functions that say what each call returns;
  \<^item> the calls themselves, as a list of events in the order in which the code makes
    them (a scope object that is declared is an \<open>Enter\<close> event, and an \<open>Exit\<close> event
    where its block ends);
  \<^item> the \<open>CHECK\<close> macros, which abort the process, as the left summand of the result.
  A function of the class is a function from the object to the events it emits and
  either the check that aborted or the object and the values it returns.
\<close>

subsection \<open>Handles and pointers\<close>

text \<open>
  Objects of the collaborators are handles (natural numbers). A pointer that the code
  tests against \<open>nullptr\<close>, checks, or receives from a caller that may pass
  \<open>nullptr\<close> is an \<open>option\<close>, \<open>None\<close> being \<open>nullptr\<close> (an empty
  \<open>Local<Context>\<close> for a context). The event loop and the platform are only passed
  on or called through, never tested: they are plain handles.
\<close>

type_synonym uv_loop = nat
type_synonym platform = nat
type_synonym isolate_ptr = "nat option"
type_synonym allocator_ptr = "nat option"
type_synonym snapshot_ptr = "nat option"
type_synonym wrapper_ptr = "nat option"
type_synonym context_ptr = "nat option"
type_synonym env_ptr = "nat option"

text \<open>
  The enumeration \<open>ExitCode\<close> is declared outside this file, which names two of its
  values; \<open>kOther\<close> stands for every other code of the enumeration.
\<close>

datatype ExitCode = kNoFailure | kGenericUserError | kOther nat

text \<open>\<open>Isolate::CreateParams\<close>: the one field the file assigns (line 73).\<close>

record CreateParams =
  cp_array_buffer_allocator :: allocator_ptr

text \<open>
  \<open>IsolateData\<close>: the option the file reads (\<open>options()->track_heap_objects\<close>,
  line 143) and the field it assigns (line 87).
\<close>

record IsolateData =
  options_track_heap_objects :: bool
  max_young_gen_size :: nat

text \<open>
  The members of \<open>NodeMainInstance\<close>, in the order of the initialiser lists. The source
  writes each with a trailing underscore, which a constant's name cannot have here.
  Both constructors leave \<open>isolate_data_\<close> pointing to an object, so the member is
  the object.
\<close>

record NodeMainInstance =
  args :: "string list"
  exec_args :: "string list"
  array_buffer_allocator :: allocator_ptr
  isolate :: isolate_ptr
  platform :: platform
  isolate_data :: IsolateData
  isolate_params :: "CreateParams option"
  snapshot_data :: snapshot_ptr

subsection \<open>Collaborators\<close>

text \<open>
  What the functions called by the file return. The two flags are the preprocessor
  conditions \<open>HAVE_OPENSSL\<close> and \<open>LEAK_SANITIZER\<close>.
  \<open>AsEmbedderWrapper\<close> is a member function of the snapshot: a function of the object
  it is called on.
  \<open>max_young_generation_size_in_bytes\<close> is what the accessor of the parameters'
  constraints returns at line 88.

  A call of a collaborator returns, with two exceptions. The borrowing constructor hands
  the isolate pointer it received, which nothing has tested, to the constructor of
  \<open>IsolateData\<close> and to \<open>SetIsolateMiscHandlers\<close>. Neither function is in this file,
  so whether they return is theirs to say: \<open>new_IsolateData\<close> is \<open>None\<close> and
  \<open>SetIsolateMiscHandlers\<close> is \<open>False\<close> where the call does not return.
\<close>

record collaborators =
  HAVE_OPENSSL :: bool
  LEAK_SANITIZER :: bool
  ArrayBufferAllocator_Create :: allocator_ptr
  NewIsolate :: "CreateParams \<Rightarrow> uv_loop \<Rightarrow> platform \<Rightarrow> snapshot_ptr \<Rightarrow> isolate_ptr"
  AsEmbedderWrapper :: "nat \<Rightarrow> wrapper_ptr"
  CreateIsolateData ::
    "isolate_ptr \<Rightarrow> uv_loop \<Rightarrow> platform \<Rightarrow> allocator_ptr \<Rightarrow> wrapper_ptr \<Rightarrow> IsolateData"
  new_IsolateData ::
    "isolate_ptr \<Rightarrow> uv_loop \<Rightarrow> platform \<Rightarrow> allocator_ptr \<Rightarrow> IsolateData option"
  SetIsolateMiscHandlers :: "isolate_ptr \<Rightarrow> bool"
  max_young_generation_size_in_bytes :: nat
  NewContext :: "isolate_ptr \<Rightarrow> context_ptr"
  CreateEnvironment ::
    "IsolateData \<Rightarrow> context_ptr \<Rightarrow> string list \<Rightarrow> string list \<Rightarrow> env_ptr"
  env_context :: "nat \<Rightarrow> context_ptr"
  SpinEventLoopInternal :: "env_ptr \<Rightarrow> ExitCode option"

subsection \<open>Events and fatal checks\<close>

datatype event =
    Call_ArrayBufferAllocator_Create
  | Call_NewIsolate CreateParams uv_loop platform snapshot_ptr
  | Call_AsEmbedderWrapper snapshot_ptr
  | Call_CreateIsolateData isolate_ptr uv_loop platform allocator_ptr wrapper_ptr
  | Call_new_IsolateData isolate_ptr uv_loop platform allocator_ptr
  | Call_SetIsolateMiscHandlers isolate_ptr
  | Call_DrainTasks platform isolate_ptr
  | Call_UnregisterIsolate platform isolate_ptr
  | Call_Isolate_Dispose isolate_ptr
  | Enter_Locker isolate_ptr
  | Exit_Locker isolate_ptr
  | Enter_Isolate_Scope isolate_ptr
  | Exit_Isolate_Scope isolate_ptr
  | Enter_HandleScope isolate_ptr
  | Exit_HandleScope isolate_ptr
  | Call_StartTrackingHeapObjects isolate_ptr
  | Call_CreateEnvironment IsolateData context_ptr "string list" "string list"
  | Call_InitCryptoOnce isolate_ptr
  | Call_NewContext isolate_ptr
  | Enter_Context_Scope context_ptr
  | Exit_Context_Scope context_ptr
  | Call_LoadEnvironment env_ptr
  | Call_SpinEventLoopInternal env_ptr
  | Call_lsan_do_leak_check
  | Call_FreeEnvironment env_ptr

text \<open>
  What ends the process. First the four checks of the file, by line. Then the call of
  line 85, \<open>snapshot_data->AsEmbedderWrapper()\<close>, made through the pointer the owning
  constructor received: through a null pointer its behaviour is undefined, and the
  model stops there, so that nothing is said of what follows. Last the two calls of the
  borrowing constructor, where they do not return.
\<close>

datatype fatal =
    CHECK_NOT_NULL_isolate
  | CHECK_NULL_isolate_params
  | CHECK_NOT_NULL_env
  | CHECK_context_not_empty
  | UNDEFINED_null_snapshot_data
  | NO_RETURN_new_IsolateData
  | NO_RETURN_SetIsolateMiscHandlers

fun is_CHECK :: "fatal \<Rightarrow> bool" where
  "is_CHECK CHECK_NOT_NULL_isolate = True"
| "is_CHECK CHECK_NULL_isolate_params = True"
| "is_CHECK CHECK_NOT_NULL_env = True"
| "is_CHECK CHECK_context_not_empty = True"
| "is_CHECK UNDEFINED_null_snapshot_data = False"
| "is_CHECK NO_RETURN_new_IsolateData = False"
| "is_CHECK NO_RETURN_SetIsolateMiscHandlers = False"

type_synonym 'a outcome = "event list \<times> (fatal + 'a)"

subsection \<open>Constructors\<close>

text \<open>
  Lines 32 to 48: the constructor that adopts an isolate. \<open>isolate_params_\<close> is not
  in the initialiser list, so it is default-initialised to \<open>nullptr\<close>.
\<close>

definition NodeMainInstance_borrow ::
  "collaborators \<Rightarrow> isolate_ptr \<Rightarrow> uv_loop \<Rightarrow> platform \<Rightarrow> string list \<Rightarrow> string list
    \<Rightarrow> NodeMainInstance outcome" where
  "NodeMainInstance_borrow w isolate0 event_loop platform0 args0 exec_args0 =
     (case new_IsolateData w isolate0 event_loop platform0 None of
        None \<Rightarrow>
          ([Call_new_IsolateData isolate0 event_loop platform0 None],
           Inl NO_RETURN_new_IsolateData)
      | Some data \<Rightarrow>
          if \<not> SetIsolateMiscHandlers w isolate0
          then ([Call_new_IsolateData isolate0 event_loop platform0 None,
                 Call_SetIsolateMiscHandlers isolate0],
                Inl NO_RETURN_SetIsolateMiscHandlers)
          else ([Call_new_IsolateData isolate0 event_loop platform0 None,
                 Call_SetIsolateMiscHandlers isolate0],
                Inr \<lparr>args = args0,
                     exec_args = exec_args0,
                     array_buffer_allocator = None,
                     isolate = isolate0,
                     platform = platform0,
                     isolate_data = data,
                     isolate_params = None,
                     snapshot_data = None\<rparr>))"

text \<open>
  Lines 60 to 89: the constructor that creates its isolate. The arguments of
  \<open>CreateIsolateData\<close> include the call of \<open>AsEmbedderWrapper\<close> through
  \<open>snapshot_data\<close>, which the constructor has not tested.
\<close>

definition NodeMainInstance_own ::
  "collaborators \<Rightarrow> snapshot_ptr \<Rightarrow> uv_loop \<Rightarrow> platform \<Rightarrow> string list \<Rightarrow> string list
    \<Rightarrow> NodeMainInstance outcome" where
  "NodeMainInstance_own w snapshot_data0 event_loop platform0 args0 exec_args0 =
     (let allocator = ArrayBufferAllocator_Create w;
          params = \<lparr>cp_array_buffer_allocator = allocator\<rparr>;
          isolate0 = NewIsolate w params event_loop platform0 snapshot_data0;
          ev = [Call_ArrayBufferAllocator_Create,
                Call_NewIsolate params event_loop platform0 snapshot_data0]
      in if isolate0 = None then (ev, Inl CHECK_NOT_NULL_isolate)
         else
           case snapshot_data0 of
             None \<Rightarrow> (ev @ [Call_AsEmbedderWrapper None], Inl UNDEFINED_null_snapshot_data)
           | Some snapshot \<Rightarrow>
               let wrapper = AsEmbedderWrapper w snapshot;
                   data = CreateIsolateData w isolate0 event_loop platform0 allocator wrapper
               in (ev @ [Call_AsEmbedderWrapper snapshot_data0,
                         Call_CreateIsolateData isolate0 event_loop platform0 allocator wrapper],
                   Inr \<lparr>args = args0,
                        exec_args = exec_args0,
                        array_buffer_allocator = allocator,
                        isolate = isolate0,
                        platform = platform0,
                        isolate_data =
                          data\<lparr>max_young_gen_size := max_young_generation_size_in_bytes w\<rparr>,
                        isolate_params = Some params,
                        snapshot_data = snapshot_data0\<rparr>))"

subsection \<open>Dispose and the destructor\<close>

text \<open>Lines 91 to 96.\<close>

definition Dispose :: "NodeMainInstance \<Rightarrow> NodeMainInstance outcome" where
  "Dispose m =
     (if isolate_params m \<noteq> None then ([], Inl CHECK_NULL_isolate_params)
      else ([Call_DrainTasks (platform m) (isolate m)], Inr m))"

text \<open>Lines 98 to 105. The object is gone afterwards: the result is the events.\<close>

definition destructor :: "NodeMainInstance \<Rightarrow> event list" where
  "destructor m =
     (if isolate_params m = None then []
      else [Call_UnregisterIsolate (platform m) (isolate m),
            Call_Isolate_Dispose (isolate m)])"

subsection \<open>CreateMainEnvironment\<close>

text \<open>
  Lines 135 to 167. \<open>exit_code\<close> is a pointer to the caller's variable: the value
  comes in and the value stored goes out with the environment.
\<close>

definition CreateMainEnvironment ::
  "collaborators \<Rightarrow> NodeMainInstance \<Rightarrow> ExitCode
    \<Rightarrow> (NodeMainInstance \<times> ExitCode \<times> env_ptr) outcome" where
  "CreateMainEnvironment w m exit_code =
     (let exit_code1 = kNoFailure;
          ev = Enter_HandleScope (isolate m) #
               (if options_track_heap_objects (isolate_data m)
                then [Call_StartTrackingHeapObjects (isolate m)] else [])
      in if snapshot_data m \<noteq> None then
           let env = CreateEnvironment w (isolate_data m) None (args m) (exec_args m)
           in (ev @ [Call_CreateEnvironment (isolate_data m) None (args m) (exec_args m)]
                  @ (if HAVE_OPENSSL w then [Call_InitCryptoOnce (isolate m)] else [])
                  @ [Exit_HandleScope (isolate m)],
               Inr (m, exit_code1, env))
         else
           let context = NewContext w (isolate m)
           in if context = None
              then (ev @ [Call_NewContext (isolate m)], Inl CHECK_context_not_empty)
              else
                let env = CreateEnvironment w (isolate_data m) context (args m) (exec_args m)
                in (ev @ [Call_NewContext (isolate m),
                          Enter_Context_Scope context,
                          Call_CreateEnvironment (isolate_data m) context (args m) (exec_args m),
                          Exit_Context_Scope context,
                          Exit_HandleScope (isolate m)],
                    Inr (m, exit_code1, env)))"

subsection \<open>Run\<close>

text \<open>\<open>Maybe<T>::FromMaybe\<close> of the engine's API: the value, or the default.\<close>

definition FromMaybe :: "'a option \<Rightarrow> 'a \<Rightarrow> 'a" where
  "FromMaybe v default_value = (case v of Some x \<Rightarrow> x | None \<Rightarrow> default_value)"

text \<open>
  Lines 122 to 133: \<open>Run(ExitCode*, Environment*)\<close>. It has no check, so it
  returns the events, the object and the exit code it leaves in the caller's variable.
\<close>

definition Run_env ::
  "collaborators \<Rightarrow> NodeMainInstance \<Rightarrow> ExitCode \<Rightarrow> env_ptr
    \<Rightarrow> event list \<times> NodeMainInstance \<times> ExitCode" where
  "Run_env w m exit_code env =
     (let leak_check = (if LEAK_SANITIZER w then [Call_lsan_do_leak_check] else [])
      in if exit_code = kNoFailure
         then ([Call_LoadEnvironment env, Call_SpinEventLoopInternal env] @ leak_check,
               m, FromMaybe (SpinEventLoopInternal w env) kGenericUserError)
         else (leak_check, m, exit_code))"

text \<open>
  Lines 107 to 120: \<open>Run()\<close>. When it returns, the local objects are destroyed in
  the reverse order of their declarations; the environment is freed by its
  \<open>DeleteFnPtr\<close>.
\<close>

definition Run :: "collaborators \<Rightarrow> NodeMainInstance \<Rightarrow> (NodeMainInstance \<times> ExitCode) outcome" where
  "Run w m =
     (let ev0 = [Enter_Locker (isolate m), Enter_Isolate_Scope (isolate m),
                 Enter_HandleScope (isolate m)];
          exit_code0 = kNoFailure
      in case CreateMainEnvironment w m exit_code0 of
           (ev1, Inl f) \<Rightarrow> (ev0 @ ev1, Inl f)
         | (ev1, Inr (m1, exit_code1, env)) \<Rightarrow>
             (case env of
                None \<Rightarrow> (ev0 @ ev1, Inl CHECK_NOT_NULL_env)
              | Some e \<Rightarrow>
                  (case Run_env w m1 exit_code1 env of
                     (ev2, m2, exit_code2) \<Rightarrow>
                       (ev0 @ ev1 @ [Enter_Context_Scope (env_context w e)] @ ev2
                          @ [Exit_Context_Scope (env_context w e),
                             Call_FreeEnvironment env,
                             Exit_HandleScope (isolate m),
                             Exit_Isolate_Scope (isolate m),
                             Exit_Locker (isolate m)],
                        Inr (m2, exit_code2)))))"

subsection \<open>The lifetime of an object\<close>

text \<open>
  Between its construction and its destruction an object receives calls of its public
  member functions. The process ends at the first check that fails.
\<close>

datatype member_call = Call_Dispose | Call_Run | Call_CreateMainEnvironment ExitCode

fun call :: "collaborators \<Rightarrow> NodeMainInstance \<Rightarrow> member_call \<Rightarrow> NodeMainInstance outcome" where
  "call w m Call_Dispose = Dispose m"
| "call w m Call_Run =
     (case Run w m of (ev, Inl f) \<Rightarrow> (ev, Inl f) | (ev, Inr (m1, _)) \<Rightarrow> (ev, Inr m1))"
| "call w m (Call_CreateMainEnvironment exit_code) =
     (case CreateMainEnvironment w m exit_code of
        (ev, Inl f) \<Rightarrow> (ev, Inl f) | (ev, Inr (m1, _, _)) \<Rightarrow> (ev, Inr m1))"

fun calls :: "collaborators \<Rightarrow> NodeMainInstance \<Rightarrow> member_call list \<Rightarrow> NodeMainInstance outcome" where
  "calls w m [] = ([], Inr m)"
| "calls w m (c # cs) =
     (case call w m c of
        (ev, Inl f) \<Rightarrow> (ev, Inl f)
      | (ev, Inr m1) \<Rightarrow> (case calls w m1 cs of (ev', r) \<Rightarrow> (ev @ ev', r)))"

subsection \<open>Events of the snapshot path\<close>

text \<open>The events of the snapshot path: an environment created with no context, and the
  initialisation of the cryptographic library.\<close>

fun snapshot_path_event :: "event \<Rightarrow> bool" where
  "snapshot_path_event (Call_CreateEnvironment data None args0 exec_args0) = True"
| "snapshot_path_event (Call_InitCryptoOnce isolate0) = True"
| "snapshot_path_event e = False"

subsection \<open>A concrete embedder\<close>

text \<open>
  Collaborators for which every call succeeds, also with a null isolate, and the two
  objects the constructors build with them: one that owns its isolate and restores
  snapshot 9, and one that borrows isolate 2. Then the same collaborators except that no
  isolate can be created.
\<close>

definition example_collaborators :: collaborators where
  "example_collaborators =
     \<lparr>HAVE_OPENSSL = True,
      LEAK_SANITIZER = False,
      ArrayBufferAllocator_Create = Some 7,
      NewIsolate = (\<lambda>params event_loop platform0 snapshot. Some 1),
      AsEmbedderWrapper = (\<lambda>snapshot. Some (Suc snapshot)),
      CreateIsolateData = (\<lambda>isolate0 event_loop platform0 allocator wrapper.
        \<lparr>options_track_heap_objects = False, max_young_gen_size = 1\<rparr>),
      new_IsolateData = (\<lambda>isolate0 event_loop platform0 allocator.
        Some \<lparr>options_track_heap_objects = False, max_young_gen_size = 1\<rparr>),
      SetIsolateMiscHandlers = (\<lambda>isolate0. True),
      max_young_generation_size_in_bytes = 0,
      NewContext = (\<lambda>isolate0. Some 3),
      CreateEnvironment = (\<lambda>data context args0 exec_args0. Some 4),
      env_context = (\<lambda>e. Some 3),
      SpinEventLoopInternal = (\<lambda>env. Some kNoFailure)\<rparr>"

definition example_owning :: NodeMainInstance where
  "example_owning =
     \<lparr>args = [''node''], exec_args = [], array_buffer_allocator = Some 7,
      isolate = Some 1, platform = 0,
      isolate_data = \<lparr>options_track_heap_objects = False, max_young_gen_size = 0\<rparr>,
      isolate_params = Some \<lparr>cp_array_buffer_allocator = Some 7\<rparr>,
      snapshot_data = Some 9\<rparr>"

definition example_borrowed :: NodeMainInstance where
  "example_borrowed =
     \<lparr>args = [''node''], exec_args = [], array_buffer_allocator = None,
      isolate = Some 2, platform = 0,
      isolate_data = \<lparr>options_track_heap_objects = False, max_young_gen_size = 1\<rparr>,
      isolate_params = None,
      snapshot_data = None\<rparr>"


subsection \<open>Events of the teardown\<close>


subsection \<open>Histories of the exit code\<close>

text \<open>
  The successive values of an exit-code variable are never downgraded when no value
  other than \<open>kNoFailure\<close> is followed by \<open>kNoFailure\<close>.
\<close>

fun never_downgraded :: "ExitCode list \<Rightarrow> bool" where
  "never_downgraded (before # after # rest) =
     ((before = kNoFailure \<or> after \<noteq> kNoFailure) \<and> never_downgraded (after # rest))"
| "never_downgraded rest = True"

section \<open>Properties\<close>

subsection \<open>No member function changes the object\<close>

lemma Dispose_same: "Dispose m = (ev, Inr m') \<Longrightarrow> m' = m"
  by (simp add: Dispose_def split: if_splits)

lemma CreateMainEnvironment_same:
  "CreateMainEnvironment w m exit_code = (ev, Inr (m', r)) \<Longrightarrow> m' = m"
  by (auto simp add: CreateMainEnvironment_def Let_def split: if_splits)

lemma Run_env_same: "Run_env w m exit_code env = (ev, m', r) \<Longrightarrow> m' = m"
  by (simp add: Run_env_def Let_def split: if_splits)

lemma Run_same: "Run w m = (ev, Inr (m', r)) \<Longrightarrow> m' = m"
  by (auto simp add: Run_def Let_def split: prod.splits sum.splits option.splits
      dest!: CreateMainEnvironment_same Run_env_same)

lemma call_same: "call w m c = (ev, Inr m') \<Longrightarrow> m' = m"
  by (cases c) (auto split: prod.splits sum.splits dest: Dispose_same Run_same CreateMainEnvironment_same)

lemma calls_same: "calls w m cs = (ev, Inr m') \<Longrightarrow> m' = m"
proof (induction cs arbitrary: ev)
  case Nil
  then show ?case by simp
next
  case (Cons c cs)
  then show ?case
    by (auto split: prod.splits sum.splits dest!: call_same)
qed









lemma CreateMainEnvironment_fresh_events:
  "snapshot_data m = None \<Longrightarrow>
     \<not> list_ex snapshot_path_event (fst (CreateMainEnvironment w m exit_code))"
  by (auto simp add: CreateMainEnvironment_def Let_def)

lemma Run_fresh_events:
  "snapshot_data m = None \<Longrightarrow> \<not> list_ex snapshot_path_event (fst (Run w m))"
  using CreateMainEnvironment_fresh_events [of m w kNoFailure]
  by (auto simp add: Run_def Run_env_def Let_def list_ex_iff
      split: prod.splits sum.splits option.splits)

lemma call_fresh_events:
  "snapshot_data m = None \<Longrightarrow> \<not> list_ex snapshot_path_event (fst (call w m c))"
proof (cases c)
  case Call_Dispose
  then show ?thesis by (simp add: Dispose_def)
next
  case Call_Run
  assume "snapshot_data m = None"
  with Call_Run show ?thesis
    using Run_fresh_events [of m w] by (auto split: prod.splits sum.splits)
next
  case (Call_CreateMainEnvironment exit_code)
  assume "snapshot_data m = None"
  with Call_CreateMainEnvironment show ?thesis
    using CreateMainEnvironment_fresh_events [of m w exit_code]
    by (auto split: prod.splits sum.splits)
qed

lemma calls_fresh_events:
  "snapshot_data m = None \<Longrightarrow> \<not> list_ex snapshot_path_event (fst (calls w m cs))"
proof (induction cs arbitrary: m)
  case Nil
  then show ?case by simp
next
  case (Cons c cs)
  have same: "\<And>ev m1. call w m c = (ev, Inr m1) \<Longrightarrow> m1 = m"
    by (rule call_same)
  show ?case
    using call_fresh_events [OF Cons.prems, of w c] Cons.IH [OF Cons.prems] same
    by (auto split: prod.splits sum.splits)
qed

lemma calls_fresh_events_of:
  "snapshot_data m = None \<Longrightarrow> calls w m cs = (ev, r) \<Longrightarrow> e \<in> set ev
    \<Longrightarrow> \<not> snapshot_path_event e"
  using calls_fresh_events [of m w cs] by (auto simp add: list_ex_iff)

subsection \<open>The concrete embedder, evaluated\<close>

lemma example_own:
  "NodeMainInstance_own example_collaborators (Some 9) 0 0 [''node''] [] =
     ([Call_ArrayBufferAllocator_Create,
       Call_NewIsolate \<lparr>cp_array_buffer_allocator = Some 7\<rparr> 0 0 (Some 9),
       Call_AsEmbedderWrapper (Some 9),
       Call_CreateIsolateData (Some 1) 0 0 (Some 7) (Some 10)],
      Inr example_owning)"
  by (simp add: NodeMainInstance_own_def example_collaborators_def example_owning_def Let_def)

lemma example_borrow:
  "NodeMainInstance_borrow example_collaborators (Some 2) 0 0 [''node''] [] =
     ([Call_new_IsolateData (Some 2) 0 0 None, Call_SetIsolateMiscHandlers (Some 2)],
      Inr example_borrowed)"
  by (simp add: NodeMainInstance_borrow_def example_collaborators_def example_borrowed_def)


lemma example_borrowed_Dispose:
  "Dispose example_borrowed = ([Call_DrainTasks 0 (Some 2)], Inr example_borrowed)"
  by (simp add: Dispose_def example_borrowed_def)

subsection \<open>Ownership and the instance parameters\<close>



subsection \<open>What the constructors establish\<close>







lemma own_fields:
  assumes "NodeMainInstance_own w snapshot event_loop p a ea = (ev, Inr m)"
  shows "isolate_params m \<noteq> None"
    and "isolate m = NewIsolate w
           \<lparr>cp_array_buffer_allocator = ArrayBufferAllocator_Create w\<rparr> event_loop p snapshot"
    and "isolate m \<noteq> None"
    and "platform m = p"
    and "snapshot_data m = snapshot"
    and "args m = a"
    and "exec_args m = ea"
  using assms by (auto simp add: NodeMainInstance_own_def Let_def split: if_splits option.splits)

lemma borrow_fields:
  assumes "NodeMainInstance_borrow w i event_loop p a ea = (ev, Inr m)"
  shows "isolate_params m = None"
    and "isolate m = i"
    and "platform m = p"
    and "snapshot_data m = None"
    and "ev = [Call_new_IsolateData i event_loop p None, Call_SetIsolateMiscHandlers i]"
  using assms by (auto simp add: NodeMainInstance_borrow_def split: if_splits option.splits)



lemma example_owning_CreateMainEnvironment:
  "CreateMainEnvironment example_collaborators example_owning kGenericUserError =
     ([Enter_HandleScope (Some 1),
       Call_CreateEnvironment (isolate_data example_owning) None [''node''] [],
       Call_InitCryptoOnce (Some 1),
       Exit_HandleScope (Some 1)],
      Inr (example_owning, kNoFailure, Some 4))"
  by (simp add: CreateMainEnvironment_def example_collaborators_def example_owning_def Let_def)

subsection \<open>Dispose\<close>



subsection \<open>Destruction\<close>



subsection \<open>The snapshot path of CreateMainEnvironment\<close>

text \<open>
  Claim C4. When the snapshot member is not null, \<open>CreateMainEnvironment\<close> creates the
  environment with an empty context (the context is read from the snapshot): it calls
  neither \<open>NewContext\<close> nor enters a context scope, and where \<open>HAVE_OPENSSL\<close> is set it
  then calls \<open>InitCryptoOnce\<close>. The owning constructor stores the snapshot it is given.
\<close>

theorem snapshot_restore_path:
  "(snapshot_data m \<noteq> None \<longrightarrow>
      CreateMainEnvironment w m exit_code =
        (Enter_HandleScope (isolate m) #
           (if options_track_heap_objects (isolate_data m)
            then [Call_StartTrackingHeapObjects (isolate m)] else [])
           @ [Call_CreateEnvironment (isolate_data m) None (args m) (exec_args m)]
           @ (if HAVE_OPENSSL w then [Call_InitCryptoOnce (isolate m)] else [])
           @ [Exit_HandleScope (isolate m)],
         Inr (m, kNoFailure, CreateEnvironment w (isolate_data m) None (args m) (exec_args m)))
      \<and> (\<forall>j. Call_NewContext j \<notin> set (fst (CreateMainEnvironment w m exit_code)))
      \<and> (\<forall>c. Enter_Context_Scope c \<notin> set (fst (CreateMainEnvironment w m exit_code)))
      \<and> (\<forall>d c a ea. Call_CreateEnvironment d (Some c) a ea
            \<notin> set (fst (CreateMainEnvironment w m exit_code))))
   \<and> (NodeMainInstance_own w (Some s) event_loop p a0 ea0 = (ev0, Inr m0) \<longrightarrow>
      snapshot_data m0 = Some s)"
proof (intro conjI impI)
  assume snapshot: "snapshot_data m \<noteq> None"
  then show path: "CreateMainEnvironment w m exit_code =
        (Enter_HandleScope (isolate m) #
           (if options_track_heap_objects (isolate_data m)
            then [Call_StartTrackingHeapObjects (isolate m)] else [])
           @ [Call_CreateEnvironment (isolate_data m) None (args m) (exec_args m)]
           @ (if HAVE_OPENSSL w then [Call_InitCryptoOnce (isolate m)] else [])
           @ [Exit_HandleScope (isolate m)],
         Inr (m, kNoFailure, CreateEnvironment w (isolate_data m) None (args m) (exec_args m)))"
    by (simp add: CreateMainEnvironment_def Let_def)
  show "\<forall>j. Call_NewContext j \<notin> set (fst (CreateMainEnvironment w m exit_code))"
    by (simp add: path)
  show "\<forall>c. Enter_Context_Scope c \<notin> set (fst (CreateMainEnvironment w m exit_code))"
    by (simp add: path)
  show "\<forall>d c a ea. Call_CreateEnvironment d (Some c) a ea
            \<notin> set (fst (CreateMainEnvironment w m exit_code))"
    by (simp add: path)
next
  assume "NodeMainInstance_own w (Some s) event_loop p a0 ea0 = (ev0, Inr m0)"
  then show "snapshot_data m0 = Some s"
    by (rule own_fields(5))
qed

theorem snapshot_restore_path_witness:
  "snapshot_data example_owning \<noteq> None
   \<and> NodeMainInstance_own example_collaborators (Some 9) 0 0 [''node''] [] =
     ([Call_ArrayBufferAllocator_Create,
       Call_NewIsolate \<lparr>cp_array_buffer_allocator = Some 7\<rparr> 0 0 (Some 9),
       Call_AsEmbedderWrapper (Some 9),
       Call_CreateIsolateData (Some 1) 0 0 (Some 7) (Some 10)],
      Inr example_owning)
   \<and> CreateMainEnvironment example_collaborators example_owning kGenericUserError =
     ([Enter_HandleScope (Some 1),
       Call_CreateEnvironment (isolate_data example_owning) None [''node''] [],
       Call_InitCryptoOnce (Some 1),
       Exit_HandleScope (Some 1)],
      Inr (example_owning, kNoFailure, Some 4))
   \<and> Call_NewContext (Some 1)
       \<notin> set (fst (CreateMainEnvironment example_collaborators example_owning
                     kGenericUserError))"
proof -
  have snapshot: "snapshot_data example_owning \<noteq> None"
    by (simp add: example_owning_def)
  from snapshot_restore_path [where w = example_collaborators and m = example_owning
      and exit_code = kGenericUserError and s = 9 and event_loop = 0 and p = 0
      and ?a0.0 = "[''node'']" and ?ea0.0 = "[]" and ?m0.0 = example_owning
      and ?ev0.0 = "fst (NodeMainInstance_own example_collaborators (Some 9) 0 0 [''node''] [])"]
    snapshot
  have "Call_NewContext (Some 1)
       \<notin> set (fst (CreateMainEnvironment example_collaborators example_owning
                     kGenericUserError))"
    by blast
  with snapshot example_own example_owning_CreateMainEnvironment
  show ?thesis by simp
qed

subsection \<open>The fresh path of CreateMainEnvironment\<close>

lemma example_borrowed_CreateMainEnvironment:
  "CreateMainEnvironment example_collaborators example_borrowed exit_code =
     ([Enter_HandleScope (Some 2), Call_NewContext (Some 2), Enter_Context_Scope (Some 3),
       Call_CreateEnvironment (isolate_data example_borrowed) (Some 3) [''node''] [],
       Exit_Context_Scope (Some 3), Exit_HandleScope (Some 2)],
      Inr (example_borrowed, kNoFailure, Some 4))"
  by (simp add: CreateMainEnvironment_def example_collaborators_def example_borrowed_def Let_def)

text \<open>
  With a null snapshot and an isolate, the owning constructor reaches line 85 and calls
  \<open>AsEmbedderWrapper\<close> through the null pointer.
\<close>

lemma own_null_snapshot:
  "NewIsolate w \<lparr>cp_array_buffer_allocator = ArrayBufferAllocator_Create w\<rparr>
      event_loop p None \<noteq> None \<Longrightarrow>
   NodeMainInstance_own w None event_loop p a ea =
     ([Call_ArrayBufferAllocator_Create,
       Call_NewIsolate \<lparr>cp_array_buffer_allocator = ArrayBufferAllocator_Create w\<rparr>
         event_loop p None,
       Call_AsEmbedderWrapper None],
      Inl UNDEFINED_null_snapshot_data)"
  by (simp add: NodeMainInstance_own_def Let_def)




subsection \<open>The fatal checks\<close>

text \<open>
  Claim C6. Each check stands right after the call whose result it tests and ends the
  process there. When \<open>NewIsolate\<close> returns null the owning constructor aborts with
  that call as its last event. When the fresh context is empty \<open>CreateMainEnvironment\<close>
  aborts with \<open>NewContext\<close> as its last event and creates no environment. When
  \<open>CreateMainEnvironment\<close> returns a null environment \<open>Run\<close> aborts with nothing
  after the events of \<open>CreateMainEnvironment\<close>: the environment is neither loaded nor
  is the event loop run.
\<close>

theorem fatal_checks_abort_at_once:
  "(NewIsolate w \<lparr>cp_array_buffer_allocator = ArrayBufferAllocator_Create w\<rparr>
        event_loop p snapshot = None \<longrightarrow>
      NodeMainInstance_own w snapshot event_loop p a ea =
        ([Call_ArrayBufferAllocator_Create,
          Call_NewIsolate \<lparr>cp_array_buffer_allocator = ArrayBufferAllocator_Create w\<rparr>
            event_loop p snapshot],
         Inl CHECK_NOT_NULL_isolate))
   \<and> (snapshot_data m = None \<and> NewContext w (isolate m) = None \<longrightarrow>
      snd (CreateMainEnvironment w m exit_code) = Inl CHECK_context_not_empty
      \<and> last (fst (CreateMainEnvironment w m exit_code)) = Call_NewContext (isolate m)
      \<and> (\<forall>d c a1 ea1. Call_CreateEnvironment d c a1 ea1
            \<notin> set (fst (CreateMainEnvironment w m exit_code))))
   \<and> (CreateMainEnvironment w m2 kNoFailure = (ev1, Inr (m3, exit_code1, None)) \<longrightarrow>
      Run w m2 =
        ([Enter_Locker (isolate m2), Enter_Isolate_Scope (isolate m2),
          Enter_HandleScope (isolate m2)] @ ev1,
         Inl CHECK_NOT_NULL_env)
      \<and> (\<forall>e. Call_LoadEnvironment e \<notin> set (fst (Run w m2))
            \<and> Call_SpinEventLoopInternal e \<notin> set (fst (Run w m2))))"
proof (intro conjI impI)
  assume "NewIsolate w \<lparr>cp_array_buffer_allocator = ArrayBufferAllocator_Create w\<rparr>
        event_loop p snapshot = None"
  then show "NodeMainInstance_own w snapshot event_loop p a ea =
        ([Call_ArrayBufferAllocator_Create,
          Call_NewIsolate \<lparr>cp_array_buffer_allocator = ArrayBufferAllocator_Create w\<rparr>
            event_loop p snapshot],
         Inl CHECK_NOT_NULL_isolate)"
    by (simp add: NodeMainInstance_own_def Let_def)
next
  assume "snapshot_data m = None \<and> NewContext w (isolate m) = None"
  then have aborted: "CreateMainEnvironment w m exit_code =
      (Enter_HandleScope (isolate m) #
         (if options_track_heap_objects (isolate_data m)
          then [Call_StartTrackingHeapObjects (isolate m)] else [])
         @ [Call_NewContext (isolate m)],
       Inl CHECK_context_not_empty)"
    by (simp add: CreateMainEnvironment_def Let_def)
  show "snd (CreateMainEnvironment w m exit_code) = Inl CHECK_context_not_empty"
    by (simp add: aborted)
  show "last (fst (CreateMainEnvironment w m exit_code)) = Call_NewContext (isolate m)"
    by (simp add: aborted)
  show "\<forall>d c a1 ea1. Call_CreateEnvironment d c a1 ea1
            \<notin> set (fst (CreateMainEnvironment w m exit_code))"
    by (simp add: aborted)
next
  assume null_env: "CreateMainEnvironment w m2 kNoFailure = (ev1, Inr (m3, exit_code1, None))"
  then show run: "Run w m2 =
        ([Enter_Locker (isolate m2), Enter_Isolate_Scope (isolate m2),
          Enter_HandleScope (isolate m2)] @ ev1,
         Inl CHECK_NOT_NULL_env)"
    by (simp add: Run_def Let_def)
  have "\<forall>e. Call_LoadEnvironment e \<notin> set ev1 \<and> Call_SpinEventLoopInternal e \<notin> set ev1"
    using null_env by (auto simp add: CreateMainEnvironment_def Let_def split: if_splits)
  then show "\<forall>e. Call_LoadEnvironment e \<notin> set (fst (Run w m2))
            \<and> Call_SpinEventLoopInternal e \<notin> set (fst (Run w m2))"
    by (simp add: run)
qed

theorem fatal_checks_abort_at_once_witness:
  "NewIsolate (example_collaborators\<lparr>NewIsolate := \<lambda>params event_loop platform0 snapshot. None\<rparr>)
       \<lparr>cp_array_buffer_allocator = Some 7\<rparr> 0 0 (Some 9) = None
   \<and> NodeMainInstance_own
        (example_collaborators\<lparr>NewIsolate := \<lambda>params event_loop platform0 snapshot. None\<rparr>)
        (Some 9) 0 0 [''node''] [] =
       ([Call_ArrayBufferAllocator_Create,
         Call_NewIsolate \<lparr>cp_array_buffer_allocator = Some 7\<rparr> 0 0 (Some 9)],
        Inl CHECK_NOT_NULL_isolate)
   \<and> snapshot_data example_borrowed = None
   \<and> NewContext (example_collaborators\<lparr>NewContext := \<lambda>isolate0. None\<rparr>) (isolate example_borrowed)
       = None
   \<and> snd (CreateMainEnvironment (example_collaborators\<lparr>NewContext := \<lambda>isolate0. None\<rparr>)
         example_borrowed kNoFailure) = Inl CHECK_context_not_empty
   \<and> CreateMainEnvironment
        (example_collaborators\<lparr>CreateEnvironment := \<lambda>data ctx args0 exec_args0. None\<rparr>)
        example_owning kNoFailure =
       ([Enter_HandleScope (Some 1),
         Call_CreateEnvironment (isolate_data example_owning) None [''node''] [],
         Call_InitCryptoOnce (Some 1),
         Exit_HandleScope (Some 1)],
        Inr (example_owning, kNoFailure, None))
   \<and> Run (example_collaborators\<lparr>CreateEnvironment := \<lambda>data ctx args0 exec_args0. None\<rparr>)
        example_owning =
       ([Enter_Locker (Some 1), Enter_Isolate_Scope (Some 1), Enter_HandleScope (Some 1),
         Enter_HandleScope (Some 1),
         Call_CreateEnvironment (isolate_data example_owning) None [''node''] [],
         Call_InitCryptoOnce (Some 1),
         Exit_HandleScope (Some 1)],
        Inl CHECK_NOT_NULL_env)"
proof -
  let ?w1 = "example_collaborators\<lparr>NewIsolate := \<lambda>params event_loop platform0 snapshot. None\<rparr>"
  let ?w2 = "example_collaborators\<lparr>NewContext := \<lambda>isolate0. None\<rparr>"
  let ?w3 = "example_collaborators\<lparr>CreateEnvironment := \<lambda>data ctx args0 exec_args0. None\<rparr>"
  have allocator: "ArrayBufferAllocator_Create ?w1 = Some 7"
    by (simp add: example_collaborators_def)
  have no_isolate: "NewIsolate ?w1 \<lparr>cp_array_buffer_allocator = Some 7\<rparr> 0 0 (Some 9) = None"
    by simp
  have no_snapshot: "snapshot_data example_borrowed = None"
    by (simp add: example_borrowed_def)
  have no_context: "NewContext ?w2 (isolate example_borrowed) = None"
    by simp
  have no_env: "CreateMainEnvironment ?w3 example_owning kNoFailure =
       ([Enter_HandleScope (Some 1),
         Call_CreateEnvironment (isolate_data example_owning) None [''node''] [],
         Call_InitCryptoOnce (Some 1),
         Exit_HandleScope (Some 1)],
        Inr (example_owning, kNoFailure, None))"
    by (simp add: CreateMainEnvironment_def example_collaborators_def example_owning_def Let_def)
  have isolate: "isolate example_owning = Some 1"
    by (simp add: example_owning_def)
  from fatal_checks_abort_at_once [where w = ?w1 and event_loop = 0 and p = 0
      and snapshot = "Some 9" and a = "[''node'']" and ea = "[]"]
    allocator no_isolate
  have first: "NodeMainInstance_own ?w1 (Some 9) 0 0 [''node''] [] =
       ([Call_ArrayBufferAllocator_Create,
         Call_NewIsolate \<lparr>cp_array_buffer_allocator = Some 7\<rparr> 0 0 (Some 9)],
        Inl CHECK_NOT_NULL_isolate)"
    by simp
  from fatal_checks_abort_at_once [where w = ?w2 and m = example_borrowed
      and exit_code = kNoFailure]
    no_snapshot no_context
  have second: "snd (CreateMainEnvironment ?w2 example_borrowed kNoFailure) =
      Inl CHECK_context_not_empty"
    by blast
  from fatal_checks_abort_at_once [where w = ?w3 and ?m2.0 = example_owning
      and ?m3.0 = example_owning and ?exit_code1.0 = kNoFailure
      and ?ev1.0 = "[Enter_HandleScope (Some 1),
         Call_CreateEnvironment (isolate_data example_owning) None [''node''] [],
         Call_InitCryptoOnce (Some 1),
         Exit_HandleScope (Some 1)]"]
    no_env isolate
  have third: "Run ?w3 example_owning =
       ([Enter_Locker (Some 1), Enter_Isolate_Scope (Some 1), Enter_HandleScope (Some 1),
         Enter_HandleScope (Some 1),
         Call_CreateEnvironment (isolate_data example_owning) None [''node''] [],
         Call_InitCryptoOnce (Some 1),
         Exit_HandleScope (Some 1)],
        Inl CHECK_NOT_NULL_env)"
    by simp
  from no_isolate first no_snapshot no_context second no_env third
  show ?thesis by blast
qed

subsection \<open>The execution driver\<close>

text \<open>
  Claim C7. \<open>Run(ExitCode*, Environment*)\<close>: when the exit code that comes in is
  \<open>kNoFailure\<close> it loads the environment and then spins the event loop, and the exit
  code becomes the value the loop returned, or \<open>kGenericUserError\<close> when the loop
  returned none. When the exit code that comes in is anything else, the environment is
  not loaded, the loop is not run and the exit code is left as it was.
\<close>

theorem execution_driver:
  "(exit_code = kNoFailure \<longrightarrow>
      fst (Run_env w m exit_code env) =
        [Call_LoadEnvironment env, Call_SpinEventLoopInternal env]
        @ (if LEAK_SANITIZER w then [Call_lsan_do_leak_check] else [])
      \<and> (\<forall>c. SpinEventLoopInternal w env = Some c \<longrightarrow> snd (snd (Run_env w m exit_code env)) = c)
      \<and> (SpinEventLoopInternal w env = None \<longrightarrow>
            snd (snd (Run_env w m exit_code env)) = kGenericUserError))
   \<and> (exit_code \<noteq> kNoFailure \<longrightarrow>
      (\<forall>e. Call_LoadEnvironment e \<notin> set (fst (Run_env w m exit_code env))
         \<and> Call_SpinEventLoopInternal e \<notin> set (fst (Run_env w m exit_code env)))
      \<and> snd (snd (Run_env w m exit_code env)) = exit_code)"
  by (simp add: Run_env_def FromMaybe_def Let_def)

theorem execution_driver_witness:
  "fst (Run_env example_collaborators example_owning kNoFailure (Some 4)) =
      [Call_LoadEnvironment (Some 4), Call_SpinEventLoopInternal (Some 4)]
   \<and> SpinEventLoopInternal example_collaborators (Some 4) = Some kNoFailure
   \<and> snd (snd (Run_env example_collaborators example_owning kNoFailure (Some 4))) = kNoFailure
   \<and> SpinEventLoopInternal (example_collaborators\<lparr>SpinEventLoopInternal := \<lambda>env. None\<rparr>)
        (Some 4) = None
   \<and> snd (snd (Run_env (example_collaborators\<lparr>SpinEventLoopInternal := \<lambda>env. None\<rparr>)
        example_owning kNoFailure (Some 4))) = kGenericUserError
   \<and> kOther 9 \<noteq> kNoFailure
   \<and> fst (Run_env example_collaborators example_owning (kOther 9) (Some 4)) = []
   \<and> snd (snd (Run_env example_collaborators example_owning (kOther 9) (Some 4))) = kOther 9"
proof -
  let ?w = "example_collaborators\<lparr>SpinEventLoopInternal := \<lambda>env. None\<rparr>"
  have spin: "SpinEventLoopInternal example_collaborators (Some 4) = Some kNoFailure"
    and no_leak_check: "\<not> LEAK_SANITIZER example_collaborators"
    by (simp_all add: example_collaborators_def)
  have no_value: "SpinEventLoopInternal ?w (Some 4) = None"
    by simp
  from execution_driver [where w = example_collaborators and m = example_owning
      and exit_code = kNoFailure and env = "Some 4"] spin no_leak_check
  have normal: "fst (Run_env example_collaborators example_owning kNoFailure (Some 4)) =
      [Call_LoadEnvironment (Some 4), Call_SpinEventLoopInternal (Some 4)]
    \<and> snd (snd (Run_env example_collaborators example_owning kNoFailure (Some 4))) = kNoFailure"
    by simp
  from execution_driver [where w = ?w and m = example_owning
      and exit_code = kNoFailure and env = "Some 4"] no_value
  have default_value: "snd (snd (Run_env ?w example_owning kNoFailure (Some 4))) =
      kGenericUserError"
    by simp
  have "fst (Run_env example_collaborators example_owning (kOther 9) (Some 4)) = []"
    using no_leak_check by (simp add: Run_env_def)
  moreover
  from execution_driver [where w = example_collaborators and m = example_owning
      and exit_code = "kOther 9" and env = "Some 4"]
  have "snd (snd (Run_env example_collaborators example_owning (kOther 9) (Some 4))) = kOther 9"
    by simp
  ultimately show ?thesis
    using spin no_value normal default_value by simp
qed

subsection \<open>The exit code across Run\<close>

text \<open>
  \<open>CreateMainEnvironment\<close> stores \<open>kNoFailure\<close> whatever the caller's variable held.
\<close>

lemma CreateMainEnvironment_resets_exit_code:
  "CreateMainEnvironment w m exit_code = (ev, Inr (m', exit_code', env)) \<Longrightarrow>
     exit_code' = kNoFailure"
  by (auto simp add: CreateMainEnvironment_def Let_def split: if_splits)

text \<open>
  Claim C8. In \<open>Run()\<close> the exit code starts as \<open>kNoFailure\<close>, is what
  \<open>CreateMainEnvironment\<close> leaves of it (still \<open>kNoFailure\<close>), then what the
  execution driver leaves of it, and that last value is returned: in this history no
  failure value is replaced by \<open>kNoFailure\<close>. The driver itself never changes an exit
  code other than \<open>kNoFailure\<close>.
\<close>

theorem exit_code_never_downgraded:
  "(Run w m = (ev, Inr (m', exit_code)) \<longrightarrow>
      (\<exists>ev1 exit_code1 env ev2.
          CreateMainEnvironment w m kNoFailure = (ev1, Inr (m, exit_code1, env))
          \<and> Run_env w m exit_code1 env = (ev2, m', exit_code)
          \<and> never_downgraded [kNoFailure, exit_code1, exit_code]))
   \<and> (exit_code0 \<noteq> kNoFailure \<longrightarrow> snd (snd (Run_env w m exit_code0 env0)) = exit_code0)"
proof (intro conjI impI)
  assume run: "Run w m = (ev, Inr (m', exit_code))"
  obtain ev1 r where created: "CreateMainEnvironment w m kNoFailure = (ev1, r)"
    by (cases "CreateMainEnvironment w m kNoFailure")
  with run obtain m1 exit_code1 env where r: "r = Inr (m1, exit_code1, env)"
    by (cases r) (auto simp add: Run_def Let_def)
  from created r have reset: "exit_code1 = kNoFailure"
    by (auto simp add: CreateMainEnvironment_def Let_def split: if_splits)
  from created r have same: "m1 = m"
    by (auto dest: CreateMainEnvironment_same)
  obtain ev2 m2 exit_code2 where driven: "Run_env w m exit_code1 env = (ev2, m2, exit_code2)"
    by (cases "Run_env w m exit_code1 env")
  from run created r same driven have "m2 = m'" and "exit_code2 = exit_code"
    by (auto simp add: Run_def Let_def split: option.splits)
  with created r same driven reset
  show "\<exists>ev1 exit_code1 env ev2.
          CreateMainEnvironment w m kNoFailure = (ev1, Inr (m, exit_code1, env))
          \<and> Run_env w m exit_code1 env = (ev2, m', exit_code)
          \<and> never_downgraded [kNoFailure, exit_code1, exit_code]"
    by auto
next
  assume "exit_code0 \<noteq> kNoFailure"
  then show "snd (snd (Run_env w m exit_code0 env0)) = exit_code0"
    by (simp add: Run_env_def Let_def)
qed

theorem exit_code_never_downgraded_witness:
  "snd (Run (example_collaborators\<lparr>SpinEventLoopInternal := \<lambda>env. None\<rparr>) example_owning) =
      Inr (example_owning, kGenericUserError)
   \<and> never_downgraded [kNoFailure, kNoFailure, kGenericUserError]
   \<and> kOther 9 \<noteq> kNoFailure
   \<and> snd (snd (Run_env example_collaborators example_owning (kOther 9) (Some 4))) = kOther 9"
proof -
  let ?w = "example_collaborators\<lparr>SpinEventLoopInternal := \<lambda>env. None\<rparr>"
  have created: "CreateMainEnvironment ?w example_owning kNoFailure =
     ([Enter_HandleScope (Some 1),
       Call_CreateEnvironment (isolate_data example_owning) None [''node''] [],
       Call_InitCryptoOnce (Some 1), Exit_HandleScope (Some 1)],
      Inr (example_owning, kNoFailure, Some 4))"
    by (simp add: CreateMainEnvironment_def example_collaborators_def example_owning_def Let_def)
  have run: "Run ?w example_owning =
      (fst (Run ?w example_owning), Inr (example_owning, kGenericUserError))"
    by (simp add: Run_def Run_env_def FromMaybe_def created Let_def)
  note claim = exit_code_never_downgraded [where w = ?w and m = example_owning
      and m' = example_owning and exit_code = kGenericUserError
      and ev = "fst (Run ?w example_owning)"
      and ?exit_code0.0 = "kOther 9" and ?env0.0 = "Some 4"]
  from claim run obtain ev1 exit_code1 env ev2
    where "CreateMainEnvironment ?w example_owning kNoFailure =
        (ev1, Inr (example_owning, exit_code1, env))"
      and history: "never_downgraded [kNoFailure, exit_code1, kGenericUserError]"
    by blast
  with created have "exit_code1 = kNoFailure"
    by simp
  with history have "never_downgraded [kNoFailure, kNoFailure, kGenericUserError]"
    by simp
  moreover from run have "snd (Run ?w example_owning) = Inr (example_owning, kGenericUserError)"
    by (metis snd_conv)
  moreover have "snd (snd (Run_env example_collaborators example_owning (kOther 9) (Some 4))) =
      kOther 9"
    by (simp add: Run_env_def Let_def)
  ultimately show ?thesis by simp
qed

subsection \<open>Borrowing a null isolate\<close>

text \<open>
  Claim C9, as stated, does not hold: the borrowing constructor has no check. It hands a
  null isolate to the constructor of the isolate data and to \<open>SetIsolateMiscHandlers\<close>,
  and with collaborators for which these two calls return, it returns an object.
\<close>

theorem borrow_null_isolate_counterexample:
  "NodeMainInstance_borrow example_collaborators None 0 0 [''node''] [] =
     ([Call_new_IsolateData None 0 0 None, Call_SetIsolateMiscHandlers None],
      Inr (example_borrowed\<lparr>isolate := None\<rparr>))"
  by (simp add: NodeMainInstance_borrow_def example_collaborators_def example_borrowed_def)

text \<open>
  Claim C9, amended. The borrowing constructor checks nothing about the isolate it is
  given, null or not: what ends it, if anything, is never a check. It hands the pointer
  to the constructor of the isolate data; if that call does not return, the process ends
  inside it, with no other call made. It then hands the pointer to
  \<open>SetIsolateMiscHandlers\<close>; if that call does not return, the process ends inside it.
  An object is returned exactly when both calls return, and it then holds the pointer
  given, has null instance parameters, and its destructor makes no call.
\<close>

theorem borrow_makes_no_check:
  "(\<forall>f. snd (NodeMainInstance_borrow w i event_loop p a ea) = Inl f \<longrightarrow> \<not> is_CHECK f)
   \<and> (new_IsolateData w i event_loop p None = None \<longrightarrow>
        NodeMainInstance_borrow w i event_loop p a ea =
          ([Call_new_IsolateData i event_loop p None], Inl NO_RETURN_new_IsolateData))
   \<and> (new_IsolateData w i event_loop p None \<noteq> None \<and> \<not> SetIsolateMiscHandlers w i \<longrightarrow>
        NodeMainInstance_borrow w i event_loop p a ea =
          ([Call_new_IsolateData i event_loop p None, Call_SetIsolateMiscHandlers i],
           Inl NO_RETURN_SetIsolateMiscHandlers))
   \<and> ((\<exists>m. snd (NodeMainInstance_borrow w i event_loop p a ea) = Inr m) \<longleftrightarrow>
        new_IsolateData w i event_loop p None \<noteq> None \<and> SetIsolateMiscHandlers w i)
   \<and> (\<forall>m. snd (NodeMainInstance_borrow w i event_loop p a ea) = Inr m \<longrightarrow>
        fst (NodeMainInstance_borrow w i event_loop p a ea) =
          [Call_new_IsolateData i event_loop p None, Call_SetIsolateMiscHandlers i]
        \<and> isolate m = i
        \<and> isolate_params m = None
        \<and> destructor m = [])"
  by (auto simp add: NodeMainInstance_borrow_def destructor_def split: option.splits)

theorem borrow_makes_no_check_witness:
  "snd (NodeMainInstance_borrow example_collaborators None 0 0 [''node''] []) =
      Inr (example_borrowed\<lparr>isolate := None\<rparr>)
   \<and> isolate (example_borrowed\<lparr>isolate := None\<rparr>) = None
   \<and> isolate_params (example_borrowed\<lparr>isolate := None\<rparr>) = None
   \<and> destructor (example_borrowed\<lparr>isolate := None\<rparr>) = []
   \<and> new_IsolateData
        (example_collaborators\<lparr>new_IsolateData :=
           \<lambda>isolate0 event_loop platform0 allocator. None\<rparr>) None 0 0 None = None
   \<and> NodeMainInstance_borrow
        (example_collaborators\<lparr>new_IsolateData :=
           \<lambda>isolate0 event_loop platform0 allocator. None\<rparr>) None 0 0 [''node''] [] =
       ([Call_new_IsolateData None 0 0 None], Inl NO_RETURN_new_IsolateData)
   \<and> \<not> is_CHECK NO_RETURN_new_IsolateData
   \<and> \<not> SetIsolateMiscHandlers
          (example_collaborators\<lparr>SetIsolateMiscHandlers := \<lambda>isolate0. False\<rparr>) None
   \<and> NodeMainInstance_borrow
        (example_collaborators\<lparr>SetIsolateMiscHandlers := \<lambda>isolate0. False\<rparr>)
        None 0 0 [''node''] [] =
       ([Call_new_IsolateData None 0 0 None, Call_SetIsolateMiscHandlers None],
        Inl NO_RETURN_SetIsolateMiscHandlers)"
proof -
  let ?w1 = "example_collaborators\<lparr>new_IsolateData :=
           \<lambda>isolate0 event_loop platform0 allocator. None\<rparr>"
  let ?w2 = "example_collaborators\<lparr>SetIsolateMiscHandlers := \<lambda>isolate0. False\<rparr>"
  have returned: "snd (NodeMainInstance_borrow example_collaborators None 0 0 [''node''] []) =
      Inr (example_borrowed\<lparr>isolate := None\<rparr>)"
    by (simp add: NodeMainInstance_borrow_def example_collaborators_def example_borrowed_def)
  from borrow_makes_no_check [where w = example_collaborators and i = None and event_loop = 0
      and p = 0 and a = "[''node'']" and ea = "[]"] returned
  have object: "isolate (example_borrowed\<lparr>isolate := None\<rparr>) = None
      \<and> isolate_params (example_borrowed\<lparr>isolate := None\<rparr>) = None
      \<and> destructor (example_borrowed\<lparr>isolate := None\<rparr>) = []"
    by blast
  have no_data: "new_IsolateData ?w1 None 0 0 None = None"
    by simp
  from borrow_makes_no_check [where w = ?w1 and i = None and event_loop = 0
      and p = 0 and a = "[''node'']" and ea = "[]"] no_data
  have first: "NodeMainInstance_borrow ?w1 None 0 0 [''node''] [] =
       ([Call_new_IsolateData None 0 0 None], Inl NO_RETURN_new_IsolateData)"
    by blast
  with borrow_makes_no_check [where w = ?w1 and i = None and event_loop = 0
      and p = 0 and a = "[''node'']" and ea = "[]"]
  have no_check: "\<not> is_CHECK NO_RETURN_new_IsolateData"
    by simp
  have data: "new_IsolateData ?w2 None 0 0 None \<noteq> None"
    and no_handlers: "\<not> SetIsolateMiscHandlers ?w2 None"
    by (simp_all add: example_collaborators_def)
  from borrow_makes_no_check [where w = ?w2 and i = None and event_loop = 0
      and p = 0 and a = "[''node'']" and ea = "[]"] data no_handlers
  have second: "NodeMainInstance_borrow ?w2 None 0 0 [''node''] [] =
       ([Call_new_IsolateData None 0 0 None, Call_SetIsolateMiscHandlers None],
        Inl NO_RETURN_SetIsolateMiscHandlers)"
    by blast
  from returned object no_data first no_check no_handlers second
  show ?thesis by blast
qed

subsection \<open>Borrowing objects never restore a snapshot\<close>

text \<open>
  Claim C10. The borrowing constructor sets the snapshot member to null and no member
  function changes it. So whatever is called on such an object, also when a check ends
  the process, no environment is created from a snapshot and \<open>InitCryptoOnce\<close> is not
  called; \<open>CreateMainEnvironment\<close> calls \<open>NewContext\<close> on the borrowed isolate.
\<close>

theorem borrowed_never_restores:
  "NodeMainInstance_borrow w i event_loop p a ea = (ev0, Inr m) \<and> calls w m cs = (ev, r) \<longrightarrow>
     snapshot_data m = None
     \<and> (\<forall>m'. r = Inr m' \<longrightarrow> snapshot_data m' = None)
     \<and> \<not> list_ex snapshot_path_event ev
     \<and> \<not> list_ex snapshot_path_event (fst (CreateMainEnvironment w m exit_code))
     \<and> Call_NewContext i \<in> set (fst (CreateMainEnvironment w m exit_code))"
proof (intro impI)
  assume "NodeMainInstance_borrow w i event_loop p a ea = (ev0, Inr m) \<and> calls w m cs = (ev, r)"
  then have borrow: "NodeMainInstance_borrow w i event_loop p a ea = (ev0, Inr m)"
    and later: "calls w m cs = (ev, r)"
    by simp_all
  note none = borrow_fields(4) [OF borrow]
  have "\<forall>m'. r = Inr m' \<longrightarrow> snapshot_data m' = None"
    using later none by (auto dest: calls_same)
  moreover have "\<not> list_ex snapshot_path_event ev"
    using calls_fresh_events [OF none, of w cs] later by simp
  moreover have "\<not> list_ex snapshot_path_event (fst (CreateMainEnvironment w m exit_code))"
    using none by (rule CreateMainEnvironment_fresh_events)
  moreover have "Call_NewContext i \<in> set (fst (CreateMainEnvironment w m exit_code))"
    using none borrow_fields(2) [OF borrow]
    by (simp add: CreateMainEnvironment_def Let_def)
  ultimately show "snapshot_data m = None
     \<and> (\<forall>m'. r = Inr m' \<longrightarrow> snapshot_data m' = None)
     \<and> \<not> list_ex snapshot_path_event ev
     \<and> \<not> list_ex snapshot_path_event (fst (CreateMainEnvironment w m exit_code))
     \<and> Call_NewContext i \<in> set (fst (CreateMainEnvironment w m exit_code))"
    using none by simp
qed

theorem borrowed_never_restores_witness:
  "NodeMainInstance_borrow example_collaborators (Some 2) 0 0 [''node''] [] =
     ([Call_new_IsolateData (Some 2) 0 0 None, Call_SetIsolateMiscHandlers (Some 2)],
      Inr example_borrowed)
   \<and> calls example_collaborators example_borrowed
        [Call_Dispose, Call_CreateMainEnvironment kGenericUserError] =
     ([Call_DrainTasks 0 (Some 2),
       Enter_HandleScope (Some 2), Call_NewContext (Some 2), Enter_Context_Scope (Some 3),
       Call_CreateEnvironment (isolate_data example_borrowed) (Some 3) [''node''] [],
       Exit_Context_Scope (Some 3), Exit_HandleScope (Some 2)],
      Inr example_borrowed)
   \<and> snapshot_data example_borrowed = None
   \<and> \<not> list_ex snapshot_path_event
         (fst (CreateMainEnvironment example_collaborators example_borrowed kNoFailure))
   \<and> Call_NewContext (Some 2)
         \<in> set (fst (CreateMainEnvironment example_collaborators example_borrowed kNoFailure))"
proof -
  have later: "calls example_collaborators example_borrowed
        [Call_Dispose, Call_CreateMainEnvironment kGenericUserError] =
     ([Call_DrainTasks 0 (Some 2),
       Enter_HandleScope (Some 2), Call_NewContext (Some 2), Enter_Context_Scope (Some 3),
       Call_CreateEnvironment (isolate_data example_borrowed) (Some 3) [''node''] [],
       Exit_Context_Scope (Some 3), Exit_HandleScope (Some 2)],
      Inr example_borrowed)"
    by (simp add: example_borrowed_Dispose example_borrowed_CreateMainEnvironment)
  from borrowed_never_restores [where w = example_collaborators and i = "Some 2"
      and event_loop = 0 and p = 0 and a = "[''node'']" and ea = "[]"
      and m = example_borrowed and exit_code = kNoFailure
      and cs = "[Call_Dispose, Call_CreateMainEnvironment kGenericUserError]"
      and r = "Inr example_borrowed"
      and ?ev0.0 = "[Call_new_IsolateData (Some 2) 0 0 None, Call_SetIsolateMiscHandlers (Some 2)]"
      and ev = "[Call_DrainTasks 0 (Some 2),
       Enter_HandleScope (Some 2), Call_NewContext (Some 2), Enter_Context_Scope (Some 3),
       Call_CreateEnvironment (isolate_data example_borrowed) (Some 3) [''node''] [],
       Exit_Context_Scope (Some 3), Exit_HandleScope (Some 2)]"]
    example_borrow later
  show ?thesis by blast
qed

end
